theory Spec2Isabelle
  imports Complex_Main "HOL-Library.AList" "HOL-Library.Char_ord" "HOL-Library.List_Lexorder"
begin

section \<open>Data model (types/index.ts)\<close>

text \<open>
  The interfaces of the repository's type module become records; optional fields
  (\<^verbatim>\<open>handle?: string\<close>) become \<open>option\<close>s, with \<open>None\<close> for \<^verbatim>\<open>undefined\<close>.
  Field names that clash with HOL constants or with a field of another record carry a
  suffix: \<open>_f\<close> for \<^verbatim>\<open>FileEntry\<close>, \<open>_g\<close> for \<^verbatim>\<open>TelegramGroup\<close>.
  Sizes and counters are JavaScript numbers holding byte counts; they are natural numbers
  here. Strings are lists of 8-bit characters. Timestamps are the strings the clock
  produced; the clock is a parameter of every function that reads it.
\<close>

datatype GroupType = group | channel | supergroup

datatype DownloadStatus = pending | in_progress | completed | failed

record TelegramGroup =
  id_g :: string
  handle :: "string option"
  name_g :: string
  type_g :: GroupType
  memberCount :: "nat option"
  accessHash :: string
  discoveredAt_g :: string

record FileEntry =
  id_f :: string
  groupId :: string
  name_f :: string
  size_f :: nat
  mimeType :: "string option"
  extension :: "string option"
  telegramFileId :: string
  messageId :: nat
  uploadedAt :: "string option"
  discoveredAt_f :: string
  downloadStatus :: DownloadStatus
  downloadedAt :: "string option"
  downloadPath :: "string option"
  errorMessage :: "string option"

record Statistics =
  totalGroups :: nat
  totalFiles :: nat
  totalSize :: nat
  pendingFiles :: nat
  completedFiles :: nat
  failedFiles :: nat
  totalDownloadedSize :: nat

record DataFile =
  version :: string
  createdAt :: string
  lastUpdatedAt :: string
  groups :: "TelegramGroup list"
  files :: "FileEntry list"
  statistics :: Statistics

section \<open>JavaScript helpers\<close>

text \<open>\<^verbatim>\<open>Array.prototype.findIndex\<close>: the first index whose element satisfies the
  predicate; \<open>None\<close> stands for the result \<^verbatim>\<open>-1\<close>.\<close>

fun findIndex :: "('a \<Rightarrow> bool) \<Rightarrow> 'a list \<Rightarrow> nat option" where
  "findIndex P [] = None"
| "findIndex P (x # xs) = (if P x then Some 0 else map_option Suc (findIndex P xs))"

text \<open>\<^verbatim>\<open>Array.prototype.find\<close> is \<^const>\<open>List.find\<close>. Truthiness of an optional string:
  \<^verbatim>\<open>undefined\<close> and the empty string are falsy.\<close>

definition truthy :: "string option \<Rightarrow> bool" where
  "truthy v = (case v of None \<Rightarrow> False | Some s \<Rightarrow> s \<noteq> [])"

text \<open>A number that the configuration supplies is any finite number of JavaScript:
  negative values and fractions are accepted where the code does not validate them. Such
  a number is a rational here (\<^verbatim>\<open>NaN\<close> and the infinities are not modelled).
  \<^verbatim>\<open>a || b\<close> on an optional number: \<^verbatim>\<open>undefined\<close> and \<^verbatim>\<open>0\<close> give the default.\<close>

definition or_default :: "rat option \<Rightarrow> rat \<Rightarrow> rat" where
  "or_default v d = (case v of None \<Rightarrow> d | Some n \<Rightarrow> if n = 0 then d else n)"

text \<open>Decimal rendering of a number inside a template literal: of a natural number, and
  of a rational in plain notation (sign, whole part, and the fraction when there is one,
  cut after 17 digits).\<close>

definition digit_char :: "nat \<Rightarrow> char" where
  "digit_char d = ''0123456789'' ! d"

fun show_nat :: "nat \<Rightarrow> string" where
  "show_nat n = (if n < 10 then [digit_char n] else show_nat (n div 10) @ [digit_char (n mod 10)])"

declare show_nat.simps [simp del]



section \<open>Snapshot store: pure part (storage/data-file.ts)\<close>

definition DATA_VERSION :: string where
  "DATA_VERSION = ''1.0.0''"

definition createDataFile :: "string \<Rightarrow> DataFile" where
  "createDataFile now =
     \<lparr> version = DATA_VERSION, createdAt = now, lastUpdatedAt = now, groups = [], files = [],
       statistics = \<lparr> totalGroups = 0, totalFiles = 0, totalSize = 0, pendingFiles = 0,
                      completedFiles = 0, failedFiles = 0, totalDownloadedSize = 0 \<rparr> \<rparr>"

definition updateStatistics :: "string \<Rightarrow> DataFile \<Rightarrow> DataFile" where
  "updateStatistics now dataFile =
     (let stats =
        \<lparr> totalGroups = length (groups dataFile),
          totalFiles = length (files dataFile),
          totalSize = foldl (\<lambda>sum file. sum + size_f file) 0 (files dataFile),
          pendingFiles = length (filter (\<lambda>f. downloadStatus f = pending) (files dataFile)),
          completedFiles = length (filter (\<lambda>f. downloadStatus f = completed) (files dataFile)),
          failedFiles = length (filter (\<lambda>f. downloadStatus f = failed) (files dataFile)),
          totalDownloadedSize =
            foldl (\<lambda>sum file. sum + size_f file) 0
              (filter (\<lambda>f. downloadStatus f = completed) (files dataFile)) \<rparr>
      in dataFile \<lparr> statistics := stats, lastUpdatedAt := now \<rparr>)"

definition upsertGroup :: "DataFile \<Rightarrow> TelegramGroup \<Rightarrow> DataFile" where
  "upsertGroup dataFile g =
     (case findIndex (\<lambda>x. id_g x = id_g g) (groups dataFile) of
        Some existingIndex \<Rightarrow> dataFile \<lparr> groups := (groups dataFile)[existingIndex := g] \<rparr>
      | None \<Rightarrow> dataFile \<lparr> groups := groups dataFile @ [g] \<rparr>)"

definition upsertFile :: "DataFile \<Rightarrow> FileEntry \<Rightarrow> DataFile" where
  "upsertFile dataFile file =
     (case findIndex (\<lambda>f. id_f f = id_f file) (files dataFile) of
        Some existingIndex \<Rightarrow>
          (let existingFile = files dataFile ! existingIndex
           in dataFile \<lparr> files := (files dataFile)
                [existingIndex := file \<lparr> downloadStatus := downloadStatus existingFile,
                                          downloadedAt := downloadedAt existingFile,
                                          downloadPath := downloadPath existingFile,
                                          errorMessage := errorMessage existingFile \<rparr>] \<rparr>)
      | None \<Rightarrow> dataFile \<lparr> files := files dataFile @ [file] \<rparr>)"

text \<open>The statistics as the specification words them: counts and sums over the file
  collection (and the number of groups).\<close>

definition recompute :: "TelegramGroup list \<Rightarrow> FileEntry list \<Rightarrow> Statistics" where
  "recompute gs fs =
     \<lparr> totalGroups = length gs,
       totalFiles = length fs,
       totalSize = sum_list (map size_f fs),
       pendingFiles = length (filter (\<lambda>f. downloadStatus f = pending) fs),
       completedFiles = length (filter (\<lambda>f. downloadStatus f = completed) fs),
       failedFiles = length (filter (\<lambda>f. downloadStatus f = failed) fs),
       totalDownloadedSize = sum_list (map size_f (filter (\<lambda>f. downloadStatus f = completed) fs)) \<rparr>"

section \<open>Errors\<close>

text \<open>
  Every \<^verbatim>\<open>throw\<close> of the source is a value. \<open>SystemError code message\<close> is what a
  file-system call rejects with, \<open>SyntaxError\<close> what \<^verbatim>\<open>JSON.parse\<close> throws,
  \<open>DownloadError message code\<close> the class of utils/errors.ts, and \<open>Error\<close> a plain
  \<^verbatim>\<open>new Error(message)\<close> or any failure of a collaborator. A fallible computation
  returns \<open>error + 'a\<close>, with \<open>Inl\<close> for the thrown error.
\<close>

datatype error =
    SystemError string string
  | SyntaxError string
  | DownloadError string string
  | Error string

fun message :: "error \<Rightarrow> string" where
  "message (SystemError c m) = m"
| "message (SyntaxError m) = m"
| "message (DownloadError m c) = m"
| "message (Error m) = m"

fun code :: "error \<Rightarrow> string option" where
  "code (SystemError c m) = Some c"
| "code (SyntaxError m) = None"
| "code (DownloadError m c) = Some c"
| "code (Error m) = None"

fun instanceof_SyntaxError :: "error \<Rightarrow> bool" where
  "instanceof_SyntaxError (SyntaxError m) = True"
| "instanceof_SyntaxError e = False"

definition andThen :: "error + 'a \<Rightarrow> ('a \<Rightarrow> error + 'b) \<Rightarrow> error + 'b" where
  "andThen r k = (case r of Inl e \<Rightarrow> Inl e | Inr v \<Rightarrow> k v)"

section \<open>Paths and the file system\<close>

text \<open>
  Paths are POSIX strings. \<open>normalize\<close> removes leading \<^verbatim>\<open>./\<close> segments, the one
  normalisation of Node's \<^verbatim>\<open>path\<close> module that the default paths of the program
  (\<^verbatim>\<open>./data/data.json\<close>, \<^verbatim>\<open>./data/downloads\<close>) exercise; \<^verbatim>\<open>..\<close>, doubled and
  trailing separators are not modelled. The file system resolves every path it is given
  with \<open>normalize\<close>, so \<^verbatim>\<open>./a\<close> and \<^verbatim>\<open>a\<close> name the same file.
\<close>

fun normalize :: "string \<Rightarrow> string" where
  "normalize (c1 # c2 # r) = (if c1 = CHR ''.'' \<and> c2 = CHR ''/'' then normalize r else c1 # c2 # r)"
| "normalize p = p"

definition basename :: "string \<Rightarrow> string" where
  "basename p = rev (takeWhile (\<lambda>c. c \<noteq> CHR ''/'') (rev p))"

definition dirname :: "string \<Rightarrow> string" where
  "dirname p =
     (let r = dropWhile (\<lambda>c. c \<noteq> CHR ''/'') (rev p)
      in if r = [] then ''.'' else if tl r = [] then ''/'' else rev (tl r))"

definition join :: "string \<Rightarrow> string \<Rightarrow> string" where
  "join d f =
     (if f = [] then normalize d
      else if d = [] \<or> d = ''.'' then normalize f
      else if d = ''/'' then ''/'' @ f
      else normalize (d @ ''/'' @ f))"

definition startsWith :: "string \<Rightarrow> string \<Rightarrow> bool" where
  "startsWith s pre = (take (length pre) s = pre)"

text \<open>
  A file holds either the serialisation of a snapshot (\<open>Doc\<close>) or other bytes (\<open>Raw\<close>):
  text that is not JSON, or downloaded data. \<^verbatim>\<open>JSON.stringify\<close> followed by
  \<^verbatim>\<open>JSON.parse\<close> gives the snapshot back (numbers are integers, optional fields are
  dropped and read back as \<^verbatim>\<open>undefined\<close>). JSON text that parses to something other than
  a snapshot is not modelled.

  The file system has regular files (an association list from resolved paths to contents)
  and directories (a list of resolved paths; the working directory and the root always
  exist). Two lists say what the permissions forbid: the content of a \<open>readonly\<close> file
  cannot be written, and the directory entry of a \<open>pinned\<close> path cannot be created,
  removed or replaced (its directory is not writable). A call is refused as the system
  call is: \<^verbatim>\<open>ENOENT\<close> when there is nothing at the path or no parent directory,
  \<^verbatim>\<open>ENOTDIR\<close> when the parent is a regular file, \<^verbatim>\<open>EISDIR\<close> when a file operation
  meets a directory, \<^verbatim>\<open>EEXIST\<close> when a directory is to be made where a file is,
  \<^verbatim>\<open>EACCES\<close> when the permissions forbid it.
\<close>

datatype content = Doc DataFile | Raw string

record fsys =
  entries :: "(string \<times> content) list"
  dirs :: "string list"
  readonly :: "string list"
  pinned :: "string list"

definition ENOENT :: "string \<Rightarrow> error" where
  "ENOENT p = SystemError ''ENOENT'' (''ENOENT: no such file or directory, '' @ p)"

definition EACCES :: "string \<Rightarrow> error" where
  "EACCES p = SystemError ''EACCES'' (''EACCES: permission denied, '' @ p)"

definition EEXIST :: "string \<Rightarrow> error" where
  "EEXIST p = SystemError ''EEXIST'' (''EEXIST: file already exists, '' @ p)"

definition EISDIR :: "string \<Rightarrow> error" where
  "EISDIR p = SystemError ''EISDIR'' (''EISDIR: illegal operation on a directory, '' @ p)"

definition ENOTDIR :: "string \<Rightarrow> error" where
  "ENOTDIR p = SystemError ''ENOTDIR'' (''ENOTDIR: not a directory, '' @ p)"

definition lookup :: "fsys \<Rightarrow> string \<Rightarrow> content option" where
  "lookup fs p = map_of (entries fs) (normalize p)"

definition isFile :: "fsys \<Rightarrow> string \<Rightarrow> bool" where
  "isFile fs p = (lookup fs p \<noteq> None)"

definition isDirectory :: "fsys \<Rightarrow> string \<Rightarrow> bool" where
  "isDirectory fs p =
     (normalize p \<in> set (dirs fs) \<or> normalize p = ''.'' \<or> normalize p = ''/'' \<or> normalize p = [])"

definition protected :: "fsys \<Rightarrow> string \<Rightarrow> bool" where
  "protected fs p = (normalize p \<in> set (readonly fs))"

definition is_pinned :: "fsys \<Rightarrow> string \<Rightarrow> bool" where
  "is_pinned fs p = (normalize p \<in> set (pinned fs))"

text \<open>\<^verbatim>\<open>fs.access\<close> succeeds on files and on directories.\<close>

definition access :: "fsys \<Rightarrow> string \<Rightarrow> bool" where
  "access fs p = (isFile fs p \<or> isDirectory fs p)"

definition fileExists :: "fsys \<Rightarrow> string \<Rightarrow> bool" where
  "fileExists fs p = access fs p"

text \<open>What is wrong with the place a file is to be put at, if anything.\<close>

definition parent_error :: "fsys \<Rightarrow> string \<Rightarrow> error option" where
  "parent_error fs p =
     (if isFile fs (dirname p) then Some (ENOTDIR p)
      else if \<not> isDirectory fs (dirname p) then Some (ENOENT p)
      else None)"

text \<open>The directories above a path, outermost first: \<open>a\<close> and \<open>a/b\<close> for \<open>a/b/c\<close>.\<close>

fun chain :: "string \<Rightarrow> string \<Rightarrow> string list" where
  "chain pre [] = []"
| "chain pre (c # cs) =
     (if c = CHR ''/'' \<and> pre \<noteq> [] then pre # chain (pre @ [c]) cs else chain (pre @ [c]) cs)"

definition ancestors :: "string \<Rightarrow> string list" where
  "ancestors p = chain [] (normalize p)"

text \<open>\<^verbatim>\<open>fs.mkdir(p, { recursive: true })\<close> makes the missing directories down to \<open>p\<close>.
  \<^verbatim>\<open>fs.stat(p).size\<close>: only downloaded data is ever measured; the length of a serialised
  snapshot is not modelled, and \<open>stat_size\<close> rejects a path that holds one.\<close>

definition mkdir :: "fsys \<Rightarrow> string \<Rightarrow> error + fsys" where
  "mkdir fs p =
     (let targets = ancestors p @ [normalize p] in
      if isFile fs p then Inl (EEXIST p)
      else if list_ex (isFile fs) (ancestors p) then Inl (ENOTDIR p)
      else if list_ex (\<lambda>t. \<not> isDirectory fs t \<and> is_pinned fs t) targets then Inl (EACCES p)
      else Inr (fs \<lparr> dirs := dirs fs @ filter (\<lambda>t. \<not> isDirectory fs t) targets \<rparr>))"

definition stat_size :: "fsys \<Rightarrow> string \<Rightarrow> error + nat" where
  "stat_size fs p =
     (case lookup fs p of
        None \<Rightarrow> Inl (ENOENT p)
      | Some (Raw b) \<Rightarrow> Inr (length b)
      | Some (Doc d) \<Rightarrow> Inl (Error ''size of a snapshot document is not modelled''))"

definition readFile :: "fsys \<Rightarrow> string \<Rightarrow> error + content" where
  "readFile fs p =
     (if isDirectory fs p then Inl (EISDIR p)
      else case lookup fs p of None \<Rightarrow> Inl (ENOENT p) | Some c \<Rightarrow> Inr c)"

definition writeFile :: "fsys \<Rightarrow> string \<Rightarrow> content \<Rightarrow> error + fsys" where
  "writeFile fs p c =
     (if isDirectory fs p then Inl (EISDIR p)
      else case parent_error fs p of
        Some e \<Rightarrow> Inl e
      | None \<Rightarrow>
          if protected fs p then Inl (EACCES p)
          else if \<not> isFile fs p \<and> is_pinned fs p then Inl (EACCES p)
          else Inr (fs \<lparr> entries := AList.update (normalize p) c (entries fs) \<rparr>))"

definition unlink :: "fsys \<Rightarrow> string \<Rightarrow> error + fsys" where
  "unlink fs p =
     (if isDirectory fs p then Inl (EISDIR p)
      else if \<not> isFile fs p then Inl (ENOENT p)
      else if is_pinned fs p then Inl (EACCES p)
      else Inr (fs \<lparr> entries := AList.delete (normalize p) (entries fs) \<rparr>))"

definition rename :: "fsys \<Rightarrow> string \<Rightarrow> string \<Rightarrow> error + fsys" where
  "rename fs a b =
     (case lookup fs a of
        None \<Rightarrow> Inl (ENOENT a)
      | Some c \<Rightarrow>
          if isDirectory fs b then Inl (EISDIR b)
          else case parent_error fs b of
            Some e \<Rightarrow> Inl e
          | None \<Rightarrow>
              if is_pinned fs a then Inl (EACCES a)
              else if is_pinned fs b then Inl (EACCES b)
              else Inr (fs \<lparr> entries := AList.update (normalize b) c
                                          (AList.delete (normalize a) (entries fs)) \<rparr>))"

definition copyFile :: "fsys \<Rightarrow> string \<Rightarrow> string \<Rightarrow> error + fsys" where
  "copyFile fs a b =
     (case readFile fs a of
        Inl e \<Rightarrow> Inl e
      | Inr c \<Rightarrow> writeFile fs b c)"

text \<open>\<^verbatim>\<open>fs.readdir\<close> gives the names of everything directly in the directory: files and
  sub-directories.\<close>

definition readdir :: "fsys \<Rightarrow> string \<Rightarrow> error + string list" where
  "readdir fs d =
     (if isFile fs d then Inl (ENOTDIR d)
      else if \<not> isDirectory fs d then Inl (ENOENT d)
      else Inr (map basename
                  (filter (\<lambda>q. normalize (dirname q) = normalize d \<and> q \<noteq> normalize d)
                     (map fst (entries fs) @ dirs fs))))"

text \<open>\<^verbatim>\<open>try { await fs.unlink(p) } catch { }\<close>: removal, ignoring a failure.\<close>

definition unlink_quietly :: "fsys \<Rightarrow> string \<Rightarrow> fsys" where
  "unlink_quietly fs p = (case unlink fs p of Inl e \<Rightarrow> fs | Inr fs' \<Rightarrow> fs')"

definition JSON_stringify :: "DataFile \<Rightarrow> content" where
  "JSON_stringify d = Doc d"

definition JSON_parse :: "content \<Rightarrow> error + DataFile" where
  "JSON_parse c =
     (case c of Doc d \<Rightarrow> Inr d | Raw s \<Rightarrow> Inl (SyntaxError ''Unexpected token in JSON''))"

section \<open>Snapshot store: load and save (storage/data-file.ts, utils/file.ts)\<close>

text \<open>The clock as one call reads it: \<^verbatim>\<open>new Date().toISOString()\<close> and
  \<^verbatim>\<open>Date.now()\<close>.\<close>

record clock =
  iso :: string
  millis :: nat

text \<open>A composite operation returns its outcome and the file system it leaves behind,
  also when it throws.\<close>

definition atomicWrite :: "clock \<Rightarrow> fsys \<Rightarrow> string \<Rightarrow> content \<Rightarrow> (error + unit) \<times> fsys" where
  "atomicWrite clk fs filePath c =
     (let tempPath = filePath @ ''.tmp.'' @ show_nat (millis clk) in
      case writeFile fs tempPath c of
        Inl e \<Rightarrow> (Inl e, unlink_quietly fs tempPath)
      | Inr fs1 \<Rightarrow>
          (case rename fs1 tempPath filePath of
             Inl e \<Rightarrow> (Inl e, unlink_quietly fs1 tempPath)
           | Inr fs2 \<Rightarrow> (Inr (), fs2)))"

definition createBackup :: "clock \<Rightarrow> fsys \<Rightarrow> string \<Rightarrow> (error + string) \<times> fsys" where
  "createBackup clk fs filePath =
     (let timestamp = map (\<lambda>c. if c = CHR '':'' \<or> c = CHR ''.'' then CHR ''-'' else c) (iso clk);
          backupPath = filePath @ ''.backup.'' @ timestamp in
      case copyFile fs filePath backupPath of
        Inr fs1 \<Rightarrow> (Inr backupPath, fs1)
      | Inl e \<Rightarrow> if code e = Some ''ENOENT'' then (Inr [], fs) else (Inl e, fs))"

definition findLatestBackup :: "fsys \<Rightarrow> string \<Rightarrow> string option" where
  "findLatestBackup fs filePath =
     (let dir = dirname filePath; base = basename filePath in
      case readdir fs dir of
        Inl e \<Rightarrow> None
      | Inr names \<Rightarrow>
          (let backups = rev (sort (map (join dir)
                                 (filter (\<lambda>f. startsWith f (base @ ''.backup.'')) names)))
           in if length backups > 0 then Some (backups ! 0) else None))"

definition loadDataFile :: "string \<Rightarrow> fsys \<Rightarrow> string \<Rightarrow> error + DataFile" where
  "loadDataFile now fs filePath =
     (case (if \<not> fileExists fs filePath then Inr (createDataFile now)
            else andThen (readFile fs filePath) JSON_parse) of
        Inr dataFile \<Rightarrow> Inr dataFile
      | Inl e \<Rightarrow>
          (if instanceof_SyntaxError e then
             (case findLatestBackup fs filePath of
                Some backupPath \<Rightarrow> andThen (readFile fs backupPath) JSON_parse
              | None \<Rightarrow> Inl e)
           else Inl e))"

definition saveDataFile :: "clock \<Rightarrow> fsys \<Rightarrow> string \<Rightarrow> DataFile \<Rightarrow> bool \<Rightarrow> (error + unit) \<times> fsys" where
  "saveDataFile clk fs filePath dataFile createBackupFirst =
     (case (if createBackupFirst \<and> fileExists fs filePath then createBackup clk fs filePath
            else (Inr [], fs)) of
        (Inl e, fs1) \<Rightarrow> (Inl e, fs1)
      | (Inr b, fs1) \<Rightarrow>
          (let updatedData = updateStatistics (iso clk) dataFile;
               c = JSON_stringify updatedData
           in atomicWrite clk fs1 filePath c))"

text \<open>The names in the directory of \<open>filePath\<close> that start with its base name followed
  by \<^verbatim>\<open>.backup.\<close>: the candidates of the recovery.\<close>

definition backupNames :: "fsys \<Rightarrow> string \<Rightarrow> string list" where
  "backupNames fs filePath =
     (case readdir fs (dirname filePath) of
        Inl e \<Rightarrow> []
      | Inr names \<Rightarrow> filter (\<lambda>f. startsWith f (basename filePath @ ''.backup.'')) names)"

section \<open>Configuration (types/config.ts)\<close>

text \<open>Only the download settings are read by the code modelled here; the other
  sections of the configuration (group and file filters, session settings) are left out.\<close>

record DownloadSettings =
  outputDir :: "string option"
  organizeByGroup :: "bool option"
  overwriteExisting :: "bool option"
  chunkSize :: "rat option"
  concurrency :: "rat option"
  retryAttempts :: "rat option"
  retryDelay :: "rat option"

record Configuration =
  download :: "DownloadSettings option"

text \<open>\<^verbatim>\<open>config.download?.field\<close>, and the truthiness of an optional flag.\<close>

definition setting :: "(DownloadSettings \<Rightarrow> 'a option) \<Rightarrow> Configuration \<Rightarrow> 'a option" where
  "setting field config = (case download config of None \<Rightarrow> None | Some d \<Rightarrow> field d)"

definition flag :: "bool option \<Rightarrow> bool" where
  "flag v = (v = Some True)"

definition or_else :: "string option \<Rightarrow> string \<Rightarrow> string" where
  "or_else v d = (case v of None \<Rightarrow> d | Some s \<Rightarrow> if s = [] then d else s)"

section \<open>File names (utils/file.ts)\<close>

definition invalid_chars :: "char list" where
  "invalid_chars = [CHR ''<'', CHR ''>'', CHR '':'', CHR 0x22, CHR ''/'', CHR 0x5C, CHR ''|'',
                    CHR ''?'', CHR ''*'']"

definition is_invalid :: "char \<Rightarrow> bool" where
  "is_invalid c = (c \<in> set invalid_chars \<or> (of_char c :: nat) < 32)"

text \<open>Of the characters \<^verbatim>\<open>\s\<close> matches, the space and the no-break space are the ones
  that are 8-bit characters and survive the first replacement.\<close>

definition is_space :: "char \<Rightarrow> bool" where
  "is_space c = (c = CHR '' '' \<or> c = CHR 0xA0)"

function collapse_spaces :: "string \<Rightarrow> string" where
  "collapse_spaces [] = []"
| "collapse_spaces (c # cs) =
     (if is_space c then CHR ''_'' # collapse_spaces (dropWhile is_space cs)
      else c # collapse_spaces cs)"
  by pat_completeness auto
termination
  by (relation "measure length") (auto simp: le_imp_less_Suc length_dropWhile_le)

definition sanitizeFilename :: "string \<Rightarrow> string" where
  "sanitizeFilename filename =
     take 255
       (collapse_spaces
          (dropWhile (\<lambda>c. c = CHR ''.'')
             (map (\<lambda>c. if is_invalid c then CHR ''_'' else c) filename)))"

definition ensureDir :: "fsys \<Rightarrow> string \<Rightarrow> error + fsys" where
  "ensureDir fs dirPath =
     (case mkdir fs dirPath of
        Inr fs1 \<Rightarrow> Inr fs1
      | Inl e \<Rightarrow> if code e \<noteq> Some ''EEXIST'' then Inl e else Inr fs)"

section \<open>Single-file transfer and retry (download/downloader.ts)\<close>

text \<open>
  The remote side is a collaborator. What it will answer to the transfer attempts to come
  is a script, one entry per attempt that reaches it: the entity lookup throws, the message
  lookup throws, no message comes back, the message carries no document, the media download
  throws, it returns nothing, or it returns a buffer. An exhausted script answers like an
  unreachable server. The world a transfer runs in is the disk, the script, and a trace of
  what the retry loop does and sees: the number of each attempt it starts, whether the
  attempt's result was a success, and each delay it waits.
\<close>

datatype remote =
    EntityThrows string
  | MessagesThrow string
  | NoMessages
  | NotADocument
  | MediaThrows string
  | NoBuffer
  | Buffer string

datatype effect = Attempt nat | Outcome bool | Delay rat

record world =
  disk :: fsys
  network :: "remote list"
  trace :: "effect list"

record DownloadResult =
  success :: bool
  file_r :: FileEntry
  downloadPath_r :: "string option"
  error_r :: "string option"

definition succeeded :: "FileEntry \<Rightarrow> string \<Rightarrow> DownloadResult" where
  "succeeded file outputPath =
     \<lparr> success = True, file_r = file, downloadPath_r = Some outputPath, error_r = None \<rparr>"

definition failed_with :: "FileEntry \<Rightarrow> string \<Rightarrow> DownloadResult" where
  "failed_with file msg =
     \<lparr> success = False, file_r = file, downloadPath_r = None, error_r = Some msg \<rparr>"

definition outputDirOf :: "Configuration \<Rightarrow> FileEntry \<Rightarrow> string \<Rightarrow> string" where
  "outputDirOf config file groupHandle =
     (let baseDir = or_else (setting outputDir config) ''./data/downloads''
      in if flag (setting organizeByGroup config)
         then join baseDir (sanitizeFilename (if groupHandle \<noteq> [] then groupHandle else groupId file))
         else baseDir)"

definition outputPathOf :: "Configuration \<Rightarrow> FileEntry \<Rightarrow> string \<Rightarrow> string" where
  "outputPathOf config file groupHandle =
     join (outputDirOf config file groupHandle) (sanitizeFilename (name_f file))"

text \<open>The inner \<^verbatim>\<open>try\<close> block: fetch from the remote side, write the temp file, verify
  its size, rename it to the final path.\<close>

definition fetch :: "FileEntry \<Rightarrow> remote list \<Rightarrow> error + string" where
  "fetch file script =
     (case script of
        [] \<Rightarrow> Inl (DownloadError (''Could not find group with ID '' @ groupId file @
                 ''. The group may have been deleted or access was revoked.'') ''ENTITY_NOT_FOUND'')
      | EntityThrows m # rest \<Rightarrow>
          Inl (DownloadError (''Could not find group with ID '' @ groupId file @
                 ''. The group may have been deleted or access was revoked.'') ''ENTITY_NOT_FOUND'')
      | MessagesThrow m # rest \<Rightarrow> Inl (Error m)
      | NoMessages # rest \<Rightarrow>
          Inl (DownloadError (''Message not found for file '' @ id_f file) ''MESSAGE_NOT_FOUND'')
      | NotADocument # rest \<Rightarrow>
          Inl (DownloadError (''Message does not contain a document for file '' @ id_f file)
                 ''NOT_A_DOCUMENT'')
      | MediaThrows m # rest \<Rightarrow> Inl (Error m)
      | NoBuffer # rest \<Rightarrow>
          Inl (DownloadError (''Failed to download file '' @ id_f file) ''DOWNLOAD_FAILED'')
      | Buffer b # rest \<Rightarrow> Inr b)"

definition size_mismatch :: "FileEntry \<Rightarrow> nat \<Rightarrow> error" where
  "size_mismatch file written =
     DownloadError (''Downloaded size ('' @ show_nat written @ '') does not match expected size ('' @
                    show_nat (size_f file) @ '') for file '' @ id_f file) ''SIZE_MISMATCH''"

definition transfer :: "FileEntry \<Rightarrow> string \<Rightarrow> string \<Rightarrow> world \<Rightarrow> (error + DownloadResult) \<times> world" where
  "transfer file outputPath tempPath w =
     (let w1 = w \<lparr> network := tl (network w) \<rparr> in
      case fetch file (network w) of
        Inl e \<Rightarrow> (Inl e, w1)
      | Inr buffer \<Rightarrow>
          (case writeFile (disk w1) tempPath (Raw buffer) of
             Inl e \<Rightarrow> (Inl e, w1)
           | Inr d2 \<Rightarrow>
               (case stat_size d2 tempPath of
                  Inl e \<Rightarrow> (Inl e, w1 \<lparr> disk := d2 \<rparr>)
                | Inr written \<Rightarrow>
                    if written \<noteq> size_f file
                    then (Inl (size_mismatch file written), w1 \<lparr> disk := d2 \<rparr>)
                    else (case rename d2 tempPath outputPath of
                            Inl e \<Rightarrow> (Inl e, w1 \<lparr> disk := d2 \<rparr>)
                          | Inr d3 \<Rightarrow> (Inr (succeeded file outputPath), w1 \<lparr> disk := d3 \<rparr>)))))"

text \<open>The inner \<^verbatim>\<open>try\<close> with its \<^verbatim>\<open>catch\<close>: on any error the temp file is removed,
  ignoring a failure of the removal, and the error is thrown again.\<close>

definition transfer_with_cleanup ::
    "FileEntry \<Rightarrow> string \<Rightarrow> world \<Rightarrow> (error + DownloadResult) \<times> world" where
  "transfer_with_cleanup file outputPath w =
     (let tempPath = outputPath @ ''.part'' in
      case transfer file outputPath tempPath w of
        (Inl e, w1) \<Rightarrow> (Inl e, w1 \<lparr> disk := unlink_quietly (disk w1) tempPath \<rparr>)
      | (Inr r, w1) \<Rightarrow> (Inr r, w1))"

text \<open>The body of the outer \<^verbatim>\<open>try\<close>, then \<open>downloadFile\<close>: the outer \<^verbatim>\<open>catch\<close> turns
  every error into a failure result that carries the error's message.\<close>

definition downloadFile_body ::
    "FileEntry \<Rightarrow> string \<Rightarrow> Configuration \<Rightarrow> world \<Rightarrow> (error + DownloadResult) \<times> world" where
  "downloadFile_body file groupHandle config w =
     (let outputDir = outputDirOf config file groupHandle in
      case ensureDir (disk w) outputDir of
        Inl e \<Rightarrow> (Inl e, w)
      | Inr d1 \<Rightarrow>
          (let w1 = w \<lparr> disk := d1 \<rparr>;
               outputPath = join outputDir (sanitizeFilename (name_f file))
           in if \<not> flag (setting overwriteExisting config) \<and> access d1 outputPath
              then (Inr (succeeded file outputPath), w1)
              else transfer_with_cleanup file outputPath w1))"

definition downloadFile ::
    "FileEntry \<Rightarrow> string \<Rightarrow> Configuration \<Rightarrow> world \<Rightarrow> (error + DownloadResult) \<times> world" where
  "downloadFile file groupHandle config w =
     (case downloadFile_body file groupHandle config w of
        (Inl e, w1) \<Rightarrow> (Inr (failed_with file (message e)), w1)
      | (Inr r, w1) \<Rightarrow> (Inr r, w1))"





section \<open>Download manager (download/manager.ts)\<close>

record DownloadManagerOptions =
  config :: Configuration
  dataFilePath :: string
  showProgress :: "bool option"
  resumeExisting :: "bool option"

record DownloadStats =
  total_s :: nat
  completed_s :: nat
  failed_s :: nat
  skipped_s :: nat
  totalSize_s :: nat
  downloadedSize_s :: nat

text \<open>
  The manager runs on one thread. Its asynchronous functions interleave only where they
  \<^verbatim>\<open>await\<close>, so a run is a sequence of turns, each the code between two awaits. The state
  of a run is the manager's fields (\<open>dataFile\<close>, \<open>stats\<close>), the local arrays \<open>queue\<close> and
  \<open>active\<close> of \<^verbatim>\<open>downloadWithConcurrency\<close>, and where each asynchronous function
  stands: every entry of \<open>active\<close> is a call of \<^verbatim>\<open>downloadSingleFile\<close> with the await it is
  suspended at, and \<open>pc\<close> is where \<^verbatim>\<open>start\<close> itself stands. \<open>settled\<close> says that a promise
  raced on has settled, so that \<^verbatim>\<open>await Promise.race(active)\<close> may continue. The progress
  display is left out.
\<close>

datatype phase = AwaitSave1 | AwaitDownload | AwaitSave2 | Resolved

datatype main_pc = AwaitRace | Spinning | AwaitFinalSave | Returned | Thrown error

record manager =
  dataFile :: DataFile
  stats :: DownloadStats
  queue :: "FileEntry list"
  active :: "(FileEntry \<times> phase) list"
  settled :: bool
  pc :: main_pc

text \<open>What completes an await is decided outside the manager: a save returns or throws,
  the download with retry returns a result (or throws), at some time of the clock.\<close>

datatype event =
    SaveDone nat "error option"
  | DownloadDone nat string "error + DownloadResult"
  | Settle nat
  | Wake
  | FinalSaveDone "error option"

definition getFilesToDownload :: "DownloadManagerOptions \<Rightarrow> DataFile \<Rightarrow> FileEntry list" where
  "getFilesToDownload options df =
     (if flag (resumeExisting options)
      then filter (\<lambda>f. downloadStatus f = pending \<or> downloadStatus f = failed) (files df)
      else filter (\<lambda>f. downloadStatus f = pending) (files df))"

definition updateFileStatus ::
    "string \<Rightarrow> DataFile \<Rightarrow> string \<Rightarrow> DownloadStatus \<Rightarrow> string option \<Rightarrow> string option \<Rightarrow> DataFile" where
  "updateFileStatus now df fileId status path errMsg =
     (case findIndex (\<lambda>f. id_f f = fileId) (files df) of
        None \<Rightarrow> df
      | Some fileIndex \<Rightarrow>
          (let f1 = (files df ! fileIndex) \<lparr> downloadStatus := status \<rparr>;
               f2 = (if truthy path then f1 \<lparr> downloadPath := path, downloadedAt := Some now \<rparr> else f1);
               f3 = (if truthy errMsg then f2 \<lparr> errorMessage := errMsg \<rparr> else f2)
           in df \<lparr> files := (files df)[fileIndex := f3] \<rparr>))"

definition groupHandleOf :: "DataFile \<Rightarrow> FileEntry \<Rightarrow> string" where
  "groupHandleOf df file =
     (case find (\<lambda>g. id_g g = groupId file) (groups df) of
        None \<Rightarrow> groupId file
      | Some g \<Rightarrow> or_else (handle g) (groupId file))"

definition concurrencyOf :: "Configuration \<Rightarrow> rat" where
  "concurrencyOf cfg = or_default (setting concurrency cfg) 3"

text \<open>The inner loop of \<^verbatim>\<open>downloadWithConcurrency\<close>. Starting \<^verbatim>\<open>downloadSingleFile\<close> runs
  it up to its first await: the file is marked in-progress and the first save is called.\<close>

function fill :: "rat \<Rightarrow> manager \<Rightarrow> manager" where
  "fill c s =
     (if of_nat (length (active s)) < c \<and> queue s \<noteq> [] then
        (let file = hd (queue s) in
         fill c (s \<lparr> queue := tl (queue s),
                     dataFile := updateFileStatus [] (dataFile s) (id_f file) in_progress None None,
                     active := active s @ [(file, AwaitSave1)] \<rparr>))
      else s)"
  by pat_completeness auto
termination
  by (relation "measure (\<lambda>(c, s). length (queue s))") auto

declare fill.simps [simp del]

text \<open>One turn of the outer loop, from its head to the next await: fill, then wait for
  the race when something is in flight; leave the loop when nothing is in flight and the
  queue is empty. With nothing in flight and a queue that is not empty the loop would
  iterate without ever yielding: \<open>Spinning\<close>.\<close>

definition main_turn :: "rat \<Rightarrow> manager \<Rightarrow> manager" where
  "main_turn c s =
     (let s1 = fill c s in
      if active s1 \<noteq> [] then s1 \<lparr> settled := False, pc := AwaitRace \<rparr>
      else if queue s1 \<noteq> [] then s1 \<lparr> pc := Spinning \<rparr>
      else s1 \<lparr> pc := AwaitFinalSave \<rparr>)"

text \<open>The \<^verbatim>\<open>catch\<close> block of \<^verbatim>\<open>downloadSingleFile\<close>, and what it does with the result of
  the download.\<close>

definition catch_block :: "error \<Rightarrow> FileEntry \<Rightarrow> manager \<Rightarrow> manager" where
  "catch_block e file s =
     s \<lparr> dataFile := updateFileStatus [] (dataFile s) (id_f file) failed None (Some (message e)),
         stats := (stats s) \<lparr> failed_s := failed_s (stats s) + 1 \<rparr> \<rparr>"

definition on_result :: "string \<Rightarrow> DownloadResult \<Rightarrow> FileEntry \<Rightarrow> manager \<Rightarrow> manager" where
  "on_result now result file s =
     (if success result then
        s \<lparr> dataFile := updateFileStatus now (dataFile s) (id_f file) completed (downloadPath_r result) None,
            stats := (stats s) \<lparr> completed_s := completed_s (stats s) + 1,
                                  downloadedSize_s := downloadedSize_s (stats s) + size_f file \<rparr> \<rparr>
      else
        s \<lparr> dataFile := updateFileStatus now (dataFile s) (id_f file) failed None (error_r result),
            stats := (stats s) \<lparr> failed_s := failed_s (stats s) + 1 \<rparr> \<rparr>)"

definition set_phase :: "nat \<Rightarrow> phase \<Rightarrow> manager \<Rightarrow> manager" where
  "set_phase i ph s = s \<lparr> active := (active s)[i := (fst (active s ! i), ph)] \<rparr>"

text \<open>One turn of the run. \<open>None\<close>: the event cannot happen in this state.\<close>

fun step :: "rat \<Rightarrow> event \<Rightarrow> manager \<Rightarrow> manager option" where
  "step c (SaveDone i r) s =
     (if pc s = AwaitRace \<and> i < length (active s) then
        (let file = fst (active s ! i) in
         case snd (active s ! i) of
           AwaitSave1 \<Rightarrow>
             (case r of
                None \<Rightarrow> Some (set_phase i AwaitDownload s)
              | Some e \<Rightarrow> Some (set_phase i Resolved (catch_block e file s)))
         | AwaitSave2 \<Rightarrow>
             (case r of
                None \<Rightarrow> Some (set_phase i Resolved s)
              | Some e \<Rightarrow> Some (set_phase i Resolved (catch_block e file s)))
         | _ \<Rightarrow> None)
      else None)"
| "step c (DownloadDone i now r) s =
     (if pc s = AwaitRace \<and> i < length (active s) \<and> snd (active s ! i) = AwaitDownload then
        (let file = fst (active s ! i) in
         case r of
           Inr result \<Rightarrow> Some (set_phase i AwaitSave2 (on_result now result file s))
         | Inl e \<Rightarrow> Some (set_phase i Resolved (catch_block e file s)))
      else None)"
| "step c (Settle i) s =
     (if pc s = AwaitRace \<and> i < length (active s) \<and> snd (active s ! i) = Resolved
      then Some (s \<lparr> active := take i (active s) @ drop (Suc i) (active s), settled := True \<rparr>)
      else None)"
| "step c Wake s =
     (if pc s = AwaitRace \<and> settled s then Some (main_turn c s) else None)"
| "step c (FinalSaveDone r) s =
     (if pc s = AwaitFinalSave
      then Some (s \<lparr> pc := (case r of None \<Rightarrow> Returned | Some e \<Rightarrow> Thrown e) \<rparr>)
      else None)"

fun exec :: "rat \<Rightarrow> event list \<Rightarrow> manager \<Rightarrow> manager option" where
  "exec c [] s = Some s"
| "exec c (ev # evs) s = (case step c ev s of None \<Rightarrow> None | Some s1 \<Rightarrow> exec c evs s1)"

text \<open>\<^verbatim>\<open>start\<close> after the snapshot is loaded, up to its first await; \<open>start\<close> with the load;
  and what \<^verbatim>\<open>start\<close> has returned or thrown, when it has.\<close>

definition fresh_stats :: DownloadStats where
  "fresh_stats = \<lparr> total_s = 0, completed_s = 0, failed_s = 0, skipped_s = 0, totalSize_s = 0,
                    downloadedSize_s = 0 \<rparr>"

definition begin_run :: "DownloadManagerOptions \<Rightarrow> DataFile \<Rightarrow> manager" where
  "begin_run options loaded =
     (let filesToDownload = getFilesToDownload options loaded;
          s0 = \<lparr> dataFile = loaded, stats = fresh_stats, queue = [], active = [], settled = False,
                 pc = Returned \<rparr>
      in if length filesToDownload = 0 then s0
         else main_turn (concurrencyOf (config options))
                (s0 \<lparr> stats := fresh_stats \<lparr> total_s := length filesToDownload,
                                                 totalSize_s := foldl (\<lambda>sum f. sum + size_f f) 0 filesToDownload \<rparr>,
                       queue := filesToDownload \<rparr>))"

definition start :: "DownloadManagerOptions \<Rightarrow> string \<Rightarrow> fsys \<Rightarrow> error + manager" where
  "start options now fs =
     (case loadDataFile now fs (dataFilePath options) of
        Inl e \<Rightarrow> Inl e
      | Inr loaded \<Rightarrow> Inr (begin_run options loaded))"

definition outcome :: "manager \<Rightarrow> (error + DownloadStats) option" where
  "outcome s = (case pc s of Returned \<Rightarrow> Some (Inr (stats s)) | Thrown e \<Rightarrow> Some (Inl e) | _ \<Rightarrow> None)"

section \<open>Facts about the helpers\<close>

lemma findIndex_Some:
  "findIndex P xs = Some i \<Longrightarrow> i < length xs \<and> P (xs ! i) \<and> (\<forall>j<i. \<not> P (xs ! j))"
proof (induction xs arbitrary: i)
  case Nil
  then show ?case by simp
next
  case (Cons x xs)
  show ?case
  proof (cases "P x")
    case True
    with Cons.prems show ?thesis by simp
  next
    case False
    with Cons.prems obtain k where k: "findIndex P xs = Some k" "i = Suc k"
      by auto
    from Cons.IH [OF k(1)] have ih: "k < length xs" "P (xs ! k)" "\<forall>j<k. \<not> P (xs ! j)"
      by simp_all
    show ?thesis
      using ih False k(2) by (auto simp: nth_Cons split: nat.splits)
  qed
qed

lemma findIndex_None: "findIndex P xs = None \<longleftrightarrow> (\<forall>x\<in>set xs. \<not> P x)"
  by (induction xs) auto

lemma foldl_add_size: "foldl (\<lambda>sum file. sum + size_f file) a xs = a + sum_list (map size_f xs)"
  by (induction xs arbitrary: a) simp_all

lemma updateStatistics_recompute:
  "statistics (updateStatistics now df) = recompute (groups df) (files df)"
  by (simp add: updateStatistics_def recompute_def foldl_add_size)

lemma updateStatistics_files [simp]:
  "files (updateStatistics now df) = files df" "groups (updateStatistics now df) = groups df"
  by (simp_all add: updateStatistics_def)

section \<open>Facts about paths and the file system\<close>

lemma andThen_simps [simp]:
  "andThen (Inl e) k = Inl e" "andThen (Inr v) k = k v"
  by (simp_all add: andThen_def)

lemma normalize_no_slash: "CHR ''/'' \<notin> set f \<Longrightarrow> normalize f = f"
  by (cases f rule: normalize.cases) auto

lemma normalize_prefix:
  "\<exists>h. \<forall>f. CHR ''/'' \<notin> set f \<longrightarrow> normalize (d @ CHR ''/'' # f) = h @ f"
proof (induction d rule: normalize.induct)
  case (1 c1 c2 r)
  show ?case
  proof (cases "c1 = CHR ''.'' \<and> c2 = CHR ''/''")
    case True
    with 1 show ?thesis by simp
  next
    case False
    then have "\<forall>f. normalize ((c1 # c2 # r) @ CHR ''/'' # f) = (c1 # c2 # r @ ''/'') @ f"
      by auto
    then show ?thesis by blast
  qed
next
  case "2_1"
  have "normalize ([] @ CHR ''/'' # f) = ''/'' @ f" for f
    by (cases f) simp_all
  then show ?case by blast
next
  fix c :: char
  have "\<forall>f. CHR ''/'' \<notin> set f \<longrightarrow>
      normalize ([c] @ CHR ''/'' # f) = (if c = CHR ''.'' then [] else [c, CHR ''/'']) @ f"
    by (simp add: normalize_no_slash)
  then show "\<exists>h. \<forall>f. CHR ''/'' \<notin> set f \<longrightarrow> normalize ([c] @ CHR ''/'' # f) = h @ f"
    by blast
qed

lemma join_prefix:
  "\<exists>h. \<forall>f. f \<noteq> [] \<and> CHR ''/'' \<notin> set f \<longrightarrow> join d f = h @ f"
proof -
  obtain h where h: "\<forall>f. CHR ''/'' \<notin> set f \<longrightarrow> normalize (d @ CHR ''/'' # f) = h @ f"
    using normalize_prefix by blast
  have "\<forall>f. f \<noteq> [] \<and> CHR ''/'' \<notin> set f \<longrightarrow>
      join d f = (if d = [] \<or> d = ''.'' then [] else if d = ''/'' then ''/'' else h) @ f"
    using h by (auto simp: join_def normalize_no_slash)
  then show ?thesis by blast
qed

lemma append_le_cancel: "(h @ x \<le> h @ y) = (x \<le> (y :: string))"
  by (induction h) simp_all

lemma basename_no_slash: "CHR ''/'' \<notin> set (basename q)"
  by (auto simp: basename_def dest: set_takeWhileD)

lemma backupNames_wellformed:
  "n \<in> set (backupNames fs p) \<Longrightarrow> n \<noteq> [] \<and> CHR ''/'' \<notin> set n"
  by (auto simp: backupNames_def readdir_def Let_def startsWith_def basename_no_slash
      split: sum.splits if_splits)

lemma sorted_le_last: "sorted xs \<Longrightarrow> x \<in> set xs \<Longrightarrow> x \<le> last (xs :: 'a :: linorder list)"
  by (induction xs) auto

lemma rev_sort_first: "xs \<noteq> [] \<Longrightarrow> rev (sort xs) ! 0 = last (sort (xs :: 'a :: linorder list))"
proof -
  assume "xs \<noteq> []"
  then have "sort xs \<noteq> []"
    by (metis length_0_conv length_sort)
  then show ?thesis
    by (simp add: hd_rev flip: hd_conv_nth)
qed

lemma findLatestBackup_backupNames:
  "findLatestBackup fs p =
     (if backupNames fs p = [] then None
      else Some (last (sort (map (join (dirname p)) (backupNames fs p)))))"
proof (cases "readdir fs (dirname p)")
  case (Inl e)
  then show ?thesis by (simp add: findLatestBackup_def backupNames_def)
next
  case (Inr names)
  define ns where "ns = filter (\<lambda>f. startsWith f (basename p @ ''.backup.'')) names"
  have b: "backupNames fs p = ns"
    using Inr by (simp add: backupNames_def ns_def)
  have s: "(sort xs = []) = (xs = [])" for xs :: "string list"
    by (metis length_0_conv length_sort)
  have f: "findLatestBackup fs p =
      (if ns = [] then None else Some (rev (sort (map (join (dirname p)) ns)) ! 0))"
    using Inr by (simp add: findLatestBackup_def Let_def s flip: ns_def)
  show ?thesis
    unfolding b f by (simp add: rev_sort_first)
qed
lemma latest_is_greatest:
  assumes "backupNames fs p \<noteq> []"
  shows "\<exists>m \<in> set (backupNames fs p). (\<forall>n \<in> set (backupNames fs p). n \<le> m) \<and>
           findLatestBackup fs p = Some (join (dirname p) m)"
proof -
  let ?names = "backupNames fs p"
  let ?xs = "sort (map (join (dirname p)) ?names)"
  obtain h where h: "\<forall>f. f \<noteq> [] \<and> CHR ''/'' \<notin> set f \<longrightarrow> join (dirname p) f = h @ f"
    using join_prefix by blast
  have ne: "?xs \<noteq> []"
    using assms by (metis length_0_conv length_map length_sort)
  then have "last ?xs \<in> set ?xs"
    by (rule last_in_set)
  then obtain m where m: "m \<in> set ?names" "last ?xs = join (dirname p) m"
    by auto
  have "n \<le> m" if "n \<in> set ?names" for n
  proof -
    have "join (dirname p) n \<in> set ?xs"
      using that by simp
    then have "join (dirname p) n \<le> last ?xs"
      by (rule sorted_le_last [OF sorted_sort])
    moreover have "join (dirname p) n = h @ n" "join (dirname p) m = h @ m"
      using h m(1) that backupNames_wellformed by blast+
    ultimately have "h @ n \<le> h @ m"
      using m(2) by simp
    then show ?thesis
      by (simp add: append_le_cancel)
  qed
  with m assms show ?thesis
    by (auto simp: findLatestBackup_backupNames)
qed

lemma rename_ok:
  "rename fs a b = Inr fs' \<Longrightarrow> lookup fs' b = lookup fs a \<and> \<not> isDirectory fs' b"
  by (auto simp: rename_def lookup_def isDirectory_def update_conv'
      split: option.splits if_splits)

lemma writeFile_ok:
  "writeFile fs a c = Inr fs' \<Longrightarrow> lookup fs' a = Some c"
  by (auto simp: writeFile_def lookup_def update_conv' split: option.splits if_splits)

lemma atomicWrite_ok:
  "atomicWrite clk fs p c = (Inr (), fs') \<Longrightarrow> lookup fs' p = Some c \<and> \<not> isDirectory fs' p"
proof -
  let ?t = "p @ ''.tmp.'' @ show_nat (millis clk)"
  assume a: "atomicWrite clk fs p c = (Inr (), fs')"
  then obtain fs1 where w: "writeFile fs ?t c = Inr fs1" and r: "rename fs1 ?t p = Inr fs'"
    by (auto simp: atomicWrite_def Let_def split: sum.splits)
  show ?thesis
    using rename_ok [OF r] writeFile_ok [OF w] by simp
qed

lemma saveDataFile_ok:
  "saveDataFile clk fs p df b = (Inr (), fs') \<Longrightarrow>
     lookup fs' p = Some (Doc (updateStatistics (iso clk) df)) \<and> \<not> isDirectory fs' p"
  by (auto simp: saveDataFile_def Let_def JSON_stringify_def dest: atomicWrite_ok
      split: prod.splits sum.splits if_splits)

lemma updateStatistics_ignores_statistics:
  "updateStatistics now (df \<lparr> statistics := st \<rparr>) = updateStatistics now df"
  by (simp add: updateStatistics_def)

section \<open>Upsert of a file entry\<close>

definition example_stored :: FileEntry where
  "example_stored =
     \<lparr> id_f = ''g1:10'', groupId = ''g1'', name_f = ''report.pdf'', size_f = 100,
       mimeType = Some ''application/pdf'', extension = Some ''.pdf'', telegramFileId = ''doc-10'',
       messageId = 10, uploadedAt = None, discoveredAt_f = ''2024-01-01T00:00:00.000Z'',
       downloadStatus = completed, downloadedAt = Some ''2024-01-02T00:00:00.000Z'',
       downloadPath = Some ''out/g1/report.pdf'', errorMessage = None \<rparr>"

definition example_incoming :: FileEntry where
  "example_incoming =
     \<lparr> id_f = ''g1:10'', groupId = ''g1'', name_f = ''report-v2.pdf'', size_f = 120,
       mimeType = Some ''application/pdf'', extension = Some ''.pdf'', telegramFileId = ''doc-10b'',
       messageId = 10, uploadedAt = None, discoveredAt_f = ''2024-02-01T00:00:00.000Z'',
       downloadStatus = pending, downloadedAt = None, downloadPath = None, errorMessage = None \<rparr>"

definition example_other :: FileEntry where
  "example_other = example_incoming \<lparr> id_f := ''g1:11'', messageId := 11, name_f := ''notes.txt'' \<rparr>"

definition example_snapshot :: DataFile where
  "example_snapshot = (createDataFile ''2024-01-01T00:00:00.000Z'') \<lparr> files := [example_stored] \<rparr>"

text \<open>
  Claim C3. When the id of the incoming entry already occurs in the snapshot, \<open>upsertFile\<close>
  overwrites the first stored record with that id: every descriptive field comes from the
  incoming entry, while \<open>downloadStatus\<close>, \<open>downloadedAt\<close>, \<open>downloadPath\<close> and
  \<open>errorMessage\<close> are those of the prior record; no other record changes. When the id
  does not occur, the entry is appended as given. Groups and header fields are untouched.
\<close>

theorem upsertFile_merge:
  "(id_f file \<in> id_f ` set (files df) \<longrightarrow>
      (\<exists>i < length (files df).
         id_f (files df ! i) = id_f file \<and> (\<forall>j<i. id_f (files df ! j) \<noteq> id_f file) \<and>
         files (upsertFile df file) =
           (files df)[i := file \<lparr> downloadStatus := downloadStatus (files df ! i),
                                   downloadedAt := downloadedAt (files df ! i),
                                   downloadPath := downloadPath (files df ! i),
                                   errorMessage := errorMessage (files df ! i) \<rparr>] \<and>
         (let r = files (upsertFile df file) ! i; old = files df ! i in
            id_f r = id_f file \<and> groupId r = groupId file \<and> name_f r = name_f file \<and>
            size_f r = size_f file \<and> mimeType r = mimeType file \<and> extension r = extension file \<and>
            telegramFileId r = telegramFileId file \<and> messageId r = messageId file \<and>
            uploadedAt r = uploadedAt file \<and> discoveredAt_f r = discoveredAt_f file \<and>
            downloadStatus r = downloadStatus old \<and> downloadedAt r = downloadedAt old \<and>
            downloadPath r = downloadPath old \<and> errorMessage r = errorMessage old))) \<and>
   (id_f file \<notin> id_f ` set (files df) \<longrightarrow> files (upsertFile df file) = files df @ [file]) \<and>
   groups (upsertFile df file) = groups df \<and> version (upsertFile df file) = version df"
proof (cases "findIndex (\<lambda>f. id_f f = id_f file) (files df)")
  case None
  then have "id_f file \<notin> id_f ` set (files df)"
    by (auto simp: findIndex_None)
  with None show ?thesis
    by (simp add: upsertFile_def)
next
  case (Some i)
  from findIndex_Some [OF Some]
  have i: "i < length (files df)" "id_f (files df ! i) = id_f file"
    "\<forall>j<i. id_f (files df ! j) \<noteq> id_f file"
    by simp_all
  then have mem: "id_f file \<in> id_f ` set (files df)"
    by (metis imageI nth_mem)
  have upd: "files (upsertFile df file) =
      (files df)[i := file \<lparr> downloadStatus := downloadStatus (files df ! i),
                              downloadedAt := downloadedAt (files df ! i),
                              downloadPath := downloadPath (files df ! i),
                              errorMessage := errorMessage (files df ! i) \<rparr>]"
    using Some by (simp add: upsertFile_def Let_def)
  have rest: "groups (upsertFile df file) = groups df" "version (upsertFile df file) = version df"
    using Some by (simp_all add: upsertFile_def Let_def)
  show ?thesis
    using i mem upd rest by (auto simp: Let_def)
qed

theorem upsertFile_merge_witness:
  "id_f example_incoming \<in> id_f ` set (files example_snapshot) \<and>
   downloadStatus (files (upsertFile example_snapshot example_incoming) ! 0) = completed \<and>
   size_f (files (upsertFile example_snapshot example_incoming) ! 0) = 120 \<and>
   downloadPath (files (upsertFile example_snapshot example_incoming) ! 0) = Some ''out/g1/report.pdf'' \<and>
   length (files (upsertFile example_snapshot example_incoming)) = 1 \<and>
   id_f example_other \<notin> id_f ` set (files example_snapshot) \<and>
   files (upsertFile example_snapshot example_other) = [example_stored, example_other]"
  using upsertFile_merge [of example_incoming example_snapshot]
    upsertFile_merge [of example_other example_snapshot]
  by (simp add: example_snapshot_def example_incoming_def example_stored_def example_other_def
      createDataFile_def)

section \<open>Save, load and recovery\<close>

definition example_clock :: clock where
  "example_clock = \<lparr> iso = ''2024-05-05T10:00:00.123Z'', millis = 1714903200 \<rparr>"

definition example_disk :: fsys where
  "example_disk =
     \<lparr> entries =
         [(''data/data.json'', Raw ''{ \"version\": \"1.0'' ),
          (''data/data.json.backup.2023-12-31T00-00-00-000Z'', Doc (createDataFile ''2023-12-30T00:00:00.000Z'')),
          (''data/data.json.backup.2024-01-01T00-00-00-000Z'', Doc example_snapshot),
          (''data/other.json.backup.2025-01-01T00-00-00-000Z'', Doc (createDataFile ''2025-01-01T00:00:00.000Z''))],
       dirs = [''data''], readonly = [], pinned = [] \<rparr>"

text \<open>
  Claim C2. When \<open>saveDataFile\<close> has written a snapshot to \<open>p\<close> and returned normally,
  \<open>loadDataFile\<close> on the resulting file system returns a snapshot with the same files and
  groups whose statistics are the recomputation from them: \<open>totalFiles\<close> the number of
  files, \<open>totalSize\<close> the sum of the sizes, the three counters the numbers of files in
  the respective status, \<open>totalDownloadedSize\<close> the sum of the sizes of the completed
  files. The statistics handed to \<open>saveDataFile\<close> play no part in what is written.
\<close>

theorem save_then_load_statistics:
  "(saveDataFile clk fs p df b = (Inr (), fs') \<longrightarrow>
      (\<exists>loaded. loadDataFile now fs' p = Inr loaded \<and>
         files loaded = files df \<and> groups loaded = groups df \<and>
         statistics loaded = recompute (groups loaded) (files loaded))) \<and>
   saveDataFile clk fs p (df \<lparr> statistics := st \<rparr>) b = saveDataFile clk fs p df b"
proof -
  have "\<exists>loaded. loadDataFile now fs' p = Inr loaded \<and>
         files loaded = files df \<and> groups loaded = groups df \<and>
         statistics loaded = recompute (groups loaded) (files loaded)"
    if "saveDataFile clk fs p df b = (Inr (), fs')"
  proof -
    from saveDataFile_ok [OF that]
    have "loadDataFile now fs' p = Inr (updateStatistics (iso clk) df)"
      by (simp add: loadDataFile_def fileExists_def access_def isFile_def readFile_def JSON_parse_def)
    then show ?thesis
      by (simp add: updateStatistics_recompute)
  qed
  moreover have "saveDataFile clk fs p (df \<lparr> statistics := st \<rparr>) b = saveDataFile clk fs p df b"
    by (simp add: saveDataFile_def updateStatistics_ignores_statistics split: prod.splits sum.splits)
  ultimately show ?thesis by blast
qed

lemma example_save:
  "saveDataFile example_clock example_disk ''./data/data.json'' example_snapshot True =
    (Inr (), \<lparr> entries =
         [(''data/data.json'', Doc (updateStatistics ''2024-05-05T10:00:00.123Z'' example_snapshot)),
          (''data/data.json.backup.2023-12-31T00-00-00-000Z'', Doc (createDataFile ''2023-12-30T00:00:00.000Z'')),
          (''data/data.json.backup.2024-01-01T00-00-00-000Z'', Doc example_snapshot),
          (''data/other.json.backup.2025-01-01T00-00-00-000Z'', Doc (createDataFile ''2025-01-01T00:00:00.000Z'')),
          (''data/data.json.backup.2024-05-05T10-00-00-123Z'', Raw ''{ \"version\": \"1.0'')],
       dirs = [''data''], readonly = [], pinned = [] \<rparr>)"
  by (simp add: saveDataFile_def example_clock_def example_disk_def fileExists_def access_def lookup_def
      isFile_def isDirectory_def parent_error_def dirname_def is_pinned_def readFile_def
      createBackup_def copyFile_def protected_def atomicWrite_def writeFile_def rename_def
      JSON_stringify_def Let_def show_nat.simps digit_char_def)

theorem save_then_load_statistics_witness:
  "\<exists>fs'. saveDataFile example_clock example_disk ''./data/data.json'' example_snapshot True = (Inr (), fs') \<and>
     (\<exists>loaded. loadDataFile ''2024-06-01T00:00:00.000Z'' fs' ''./data/data.json'' = Inr loaded \<and>
        statistics example_snapshot = \<lparr> totalGroups = 0, totalFiles = 0, totalSize = 0, pendingFiles = 0,
                      completedFiles = 0, failedFiles = 0, totalDownloadedSize = 0 \<rparr> \<and>
        statistics loaded = \<lparr> totalGroups = 0, totalFiles = 1, totalSize = 100, pendingFiles = 0,
                      completedFiles = 1, failedFiles = 0, totalDownloadedSize = 100 \<rparr>)"
proof -
  obtain fs' where s: "saveDataFile example_clock example_disk ''./data/data.json'' example_snapshot True = (Inr (), fs')"
    using example_save by blast
  from save_then_load_statistics [of example_clock example_disk "''./data/data.json''" example_snapshot True fs'
      "''2024-06-01T00:00:00.000Z''"] s
  obtain loaded where l: "loadDataFile ''2024-06-01T00:00:00.000Z'' fs' ''./data/data.json'' = Inr loaded"
    "files loaded = files example_snapshot" "groups loaded = groups example_snapshot"
    "statistics loaded = recompute (groups loaded) (files loaded)"
    by blast
  have "statistics loaded = \<lparr> totalGroups = 0, totalFiles = 1, totalSize = 100, pendingFiles = 0,
                      completedFiles = 1, failedFiles = 0, totalDownloadedSize = 100 \<rparr>"
    unfolding l(4) l(2) l(3)
    by (simp add: recompute_def example_snapshot_def example_stored_def createDataFile_def)
  moreover have "statistics example_snapshot = \<lparr> totalGroups = 0, totalFiles = 0, totalSize = 0, pendingFiles = 0,
                      completedFiles = 0, failedFiles = 0, totalDownloadedSize = 0 \<rparr>"
    by (simp add: example_snapshot_def createDataFile_def)
  ultimately show ?thesis
    using s l(1) by blast
qed

definition crowded_disk :: fsys where
  "crowded_disk = example_disk \<lparr> dirs := [''data'', ''data/data.json.backup.zzz''] \<rparr>"

text \<open>
  Claim C9 says that when the file holds invalid JSON, \<open>loadDataFile\<close> returns the parsed
  content of the backup file whose name is greatest. \<^verbatim>\<open>findLatestBackup\<close> filters the
  names that \<^verbatim>\<open>fs.readdir\<close> returns, and these include sub-directories. On a disk
  where the directory of the data file holds valid backup files and a sub-directory
  \<^verbatim>\<open>data.json.backup.zzz\<close>, the greatest backup file parses to a snapshot, yet
  \<open>loadDataFile\<close> picks the sub-directory, and the read fails with \<^verbatim>\<open>EISDIR\<close>.
\<close>

theorem loadDataFile_directory_backup:
  "readFile crowded_disk ''./data/data.json'' = Inr (Raw ''{ \"version\": \"1.0'') \<and>
   filter (isFile crowded_disk) (map (join ''data'') (backupNames crowded_disk ''./data/data.json'')) =
     [''data/data.json.backup.2023-12-31T00-00-00-000Z'',
      ''data/data.json.backup.2024-01-01T00-00-00-000Z''] \<and>
   andThen (readFile crowded_disk ''data/data.json.backup.2024-01-01T00-00-00-000Z'') JSON_parse =
     Inr example_snapshot \<and>
   loadDataFile ''2024-06-01T00:00:00.000Z'' crowded_disk ''./data/data.json'' =
     Inl (EISDIR ''data/data.json.backup.zzz'')"
  by (simp add: loadDataFile_def findLatestBackup_def fileExists_def access_def isFile_def
      isDirectory_def readFile_def lookup_def readdir_def backupNames_def dirname_def basename_def
      startsWith_def join_def JSON_parse_def crowded_disk_def example_disk_def Let_def)

text \<open>
  Claim C9, amended. \<open>loadDataFile\<close> returns a fresh empty snapshot when nothing exists at
  the path and the stored snapshot when the file parses. When the file holds invalid JSON
  and the directory has entries (regular files or sub-directories) whose names start with
  the base name followed by \<^verbatim>\<open>.backup.\<close>, the result is what reading and parsing the
  entry with the greatest name gives: its snapshot when it is a file that parses, the
  error of the read or of the parse otherwise, \<^verbatim>\<open>EISDIR\<close> in particular when the entry
  is a sub-directory. When there is no such entry, the syntax error propagates.
\<close>

theorem loadDataFile_recovery:
  "(\<not> fileExists fs p \<longrightarrow> loadDataFile now fs p = Inr (createDataFile now)) \<and>
   (readFile fs p = Inr (Doc d) \<longrightarrow> loadDataFile now fs p = Inr d) \<and>
   (readFile fs p = Inr (Raw s) \<and> backupNames fs p \<noteq> [] \<longrightarrow>
      (\<exists>m \<in> set (backupNames fs p). (\<forall>n \<in> set (backupNames fs p). n \<le> m) \<and>
         loadDataFile now fs p = andThen (readFile fs (join (dirname p) m)) JSON_parse \<and>
         (\<forall>d'. readFile fs (join (dirname p) m) = Inr (Doc d') \<longrightarrow> loadDataFile now fs p = Inr d') \<and>
         (isDirectory fs (join (dirname p) m) \<longrightarrow>
            loadDataFile now fs p = Inl (EISDIR (join (dirname p) m))))) \<and>
   (readFile fs p = Inr (Raw s) \<and> backupNames fs p = [] \<longrightarrow>
      (\<exists>msg. loadDataFile now fs p = Inl (SyntaxError msg)))"
proof -
  have ex: "fileExists fs p" if "readFile fs p = Inr c" for c
    using that by (auto simp: readFile_def fileExists_def access_def isFile_def split: option.splits if_splits)
  have a: "loadDataFile now fs p = Inr (createDataFile now)" if "\<not> fileExists fs p"
    using that by (simp add: loadDataFile_def)
  have b: "loadDataFile now fs p = Inr d" if "readFile fs p = Inr (Doc d)"
    using that ex [OF that] by (simp add: loadDataFile_def JSON_parse_def)
  have raw: "loadDataFile now fs p =
      (case findLatestBackup fs p of
         Some backupPath \<Rightarrow> andThen (readFile fs backupPath) JSON_parse
       | None \<Rightarrow> Inl (SyntaxError ''Unexpected token in JSON''))"
    if "readFile fs p = Inr (Raw s)"
    using that ex [OF that] by (simp add: loadDataFile_def JSON_parse_def)
  have c: "\<exists>m \<in> set (backupNames fs p). (\<forall>n \<in> set (backupNames fs p). n \<le> m) \<and>
         loadDataFile now fs p = andThen (readFile fs (join (dirname p) m)) JSON_parse \<and>
         (\<forall>d'. readFile fs (join (dirname p) m) = Inr (Doc d') \<longrightarrow> loadDataFile now fs p = Inr d') \<and>
         (isDirectory fs (join (dirname p) m) \<longrightarrow>
            loadDataFile now fs p = Inl (EISDIR (join (dirname p) m)))"
    if "readFile fs p = Inr (Raw s)" "backupNames fs p \<noteq> []"
  proof -
    from latest_is_greatest [OF that(2)]
    obtain m where m: "m \<in> set (backupNames fs p)" "\<forall>n \<in> set (backupNames fs p). n \<le> m"
      "findLatestBackup fs p = Some (join (dirname p) m)"
      by blast
    have l: "loadDataFile now fs p = andThen (readFile fs (join (dirname p) m)) JSON_parse"
      using raw [OF that(1)] m(3) by simp
    have "\<forall>d'. readFile fs (join (dirname p) m) = Inr (Doc d') \<longrightarrow> loadDataFile now fs p = Inr d'"
      unfolding l by (simp add: JSON_parse_def)
    moreover have "isDirectory fs (join (dirname p) m) \<longrightarrow>
        loadDataFile now fs p = Inl (EISDIR (join (dirname p) m))"
      unfolding l by (simp add: readFile_def)
    ultimately show ?thesis
      using m(1,2) l by blast
  qed
  have d: "\<exists>msg. loadDataFile now fs p = Inl (SyntaxError msg)"
    if "readFile fs p = Inr (Raw s)" "backupNames fs p = []"
    using raw [OF that(1)] that(2) by (simp add: findLatestBackup_backupNames)
  show ?thesis
    using a b c d by blast
qed

lemma example_backupNames:
  "backupNames example_disk ''./data/data.json'' =
     [''data.json.backup.2023-12-31T00-00-00-000Z'', ''data.json.backup.2024-01-01T00-00-00-000Z'']"
  by (simp add: backupNames_def example_disk_def readdir_def isDirectory_def isFile_def lookup_def
      dirname_def basename_def startsWith_def)

lemma crowded_backupNames:
  "backupNames crowded_disk ''./data/data.json'' =
     [''data.json.backup.2023-12-31T00-00-00-000Z'', ''data.json.backup.2024-01-01T00-00-00-000Z'',
      ''data.json.backup.zzz'']"
  by (simp add: backupNames_def crowded_disk_def example_disk_def readdir_def isDirectory_def isFile_def
      lookup_def dirname_def basename_def startsWith_def)

theorem loadDataFile_recovery_witness:
  "\<not> fileExists example_disk ''./data/absent.json'' \<and>
   loadDataFile ''2024-06-01T00:00:00.000Z'' example_disk ''./data/absent.json'' = Inr (createDataFile ''2024-06-01T00:00:00.000Z'') \<and>
   readFile example_disk ''./data/data.json'' = Inr (Raw ''{ \"version\": \"1.0'') \<and>
   loadDataFile ''2024-06-01T00:00:00.000Z'' example_disk ''./data/data.json'' = Inr example_snapshot \<and>
   readFile example_disk ''data/other.json.backup.2025-01-01T00-00-00-000Z'' = Inr (Doc (createDataFile ''2025-01-01T00:00:00.000Z'')) \<and>
   loadDataFile ''2024-06-01T00:00:00.000Z'' example_disk ''data/other.json.backup.2025-01-01T00-00-00-000Z'' = Inr (createDataFile ''2025-01-01T00:00:00.000Z'') \<and>
   readFile crowded_disk ''./data/data.json'' = Inr (Raw ''{ \"version\": \"1.0'') \<and>
   isDirectory crowded_disk ''data/data.json.backup.zzz'' \<and>
   loadDataFile ''2024-06-01T00:00:00.000Z'' crowded_disk ''./data/data.json'' = Inl (EISDIR ''data/data.json.backup.zzz'')"
proof -
  let ?now = "''2024-06-01T00:00:00.000Z''"
  have r: "readFile example_disk ''./data/data.json'' = Inr (Raw ''{ \"version\": \"1.0'')"
    by (simp add: readFile_def lookup_def isDirectory_def example_disk_def)
  have r2: "readFile example_disk ''data/other.json.backup.2025-01-01T00-00-00-000Z'' = Inr (Doc (createDataFile ''2025-01-01T00:00:00.000Z''))"
    by (simp add: readFile_def lookup_def isDirectory_def example_disk_def)
  have r3: "readFile crowded_disk ''./data/data.json'' = Inr (Raw ''{ \"version\": \"1.0'')"
    by (simp add: readFile_def lookup_def isDirectory_def crowded_disk_def example_disk_def)
  have dz: "isDirectory crowded_disk ''data/data.json.backup.zzz''"
    by (simp add: isDirectory_def crowded_disk_def)
  have ne: "\<not> fileExists example_disk ''./data/absent.json''"
    by (simp add: fileExists_def access_def isDirectory_def isFile_def lookup_def example_disk_def)
  note inst = loadDataFile_recovery [of example_disk _ ?now]
  have 1: "loadDataFile ?now example_disk ''./data/absent.json'' = Inr (createDataFile ?now)"
    using inst [of "''./data/absent.json''"] ne by blast
  have 2: "loadDataFile ?now example_disk ''data/other.json.backup.2025-01-01T00-00-00-000Z'' = Inr (createDataFile ''2025-01-01T00:00:00.000Z'')"
    using inst [of "''data/other.json.backup.2025-01-01T00-00-00-000Z''"] r2 by blast
  have nonempty: "backupNames example_disk ''./data/data.json'' \<noteq> []"
    by (simp add: example_backupNames)
  have "\<exists>m \<in> set (backupNames example_disk ''./data/data.json'').
      (\<forall>n \<in> set (backupNames example_disk ''./data/data.json''). n \<le> m) \<and>
      loadDataFile ?now example_disk ''./data/data.json'' =
        andThen (readFile example_disk (join (dirname ''./data/data.json'') m)) JSON_parse"
    using inst [of "''./data/data.json''" example_snapshot "''{ \"version\": \"1.0''"] r nonempty by blast
  then obtain m where m: "m \<in> set (backupNames example_disk ''./data/data.json'')"
    "\<forall>n \<in> set (backupNames example_disk ''./data/data.json''). n \<le> m"
    "loadDataFile ?now example_disk ''./data/data.json'' = andThen (readFile example_disk (join (dirname ''./data/data.json'') m)) JSON_parse"
    by blast
  have "m = ''data.json.backup.2024-01-01T00-00-00-000Z''"
    using m(1,2) unfolding example_backupNames by auto
  then have 3: "loadDataFile ?now example_disk ''./data/data.json'' = Inr example_snapshot"
    using m(3) by (simp add: dirname_def join_def readFile_def lookup_def isDirectory_def example_disk_def JSON_parse_def)
  have nonempty': "backupNames crowded_disk ''./data/data.json'' \<noteq> []"
    by (simp add: crowded_backupNames)
  have "\<exists>m \<in> set (backupNames crowded_disk ''./data/data.json'').
      (\<forall>n \<in> set (backupNames crowded_disk ''./data/data.json''). n \<le> m) \<and>
      (isDirectory crowded_disk (join (dirname ''./data/data.json'') m) \<longrightarrow>
        loadDataFile ?now crowded_disk ''./data/data.json'' = Inl (EISDIR (join (dirname ''./data/data.json'') m)))"
    using loadDataFile_recovery [of crowded_disk "''./data/data.json''" ?now example_snapshot "''{ \"version\": \"1.0''"]
      r3 nonempty' by blast
  then obtain k where k: "k \<in> set (backupNames crowded_disk ''./data/data.json'')"
    "\<forall>n \<in> set (backupNames crowded_disk ''./data/data.json''). n \<le> k"
    "isDirectory crowded_disk (join (dirname ''./data/data.json'') k) \<longrightarrow>
        loadDataFile ?now crowded_disk ''./data/data.json'' = Inl (EISDIR (join (dirname ''./data/data.json'') k))"
    by blast
  have "k = ''data.json.backup.zzz''"
    using k(1,2) unfolding crowded_backupNames by auto
  then have 4: "loadDataFile ?now crowded_disk ''./data/data.json'' = Inl (EISDIR ''data/data.json.backup.zzz'')"
    using k(3) dz by (simp add: dirname_def join_def)
  show ?thesis
    using 1 2 3 4 r r2 r3 dz ne by blast
qed

section \<open>Facts about the transfer and the retry loop\<close>

lemma normalize_part: "normalize (p @ ''.part'') = normalize p @ ''.part''"
proof (induction p rule: normalize.induct)
  case (1 c1 c2 r)
  then show ?case by simp
next
  case "2_1"
  show ?case by simp
next
  fix c :: char
  show "normalize ([c] @ ''.part'') = normalize [c] @ ''.part''" by simp
qed

lemma normalize_part_neq: "normalize (p @ ''.part'') \<noteq> normalize p"
  by (simp add: normalize_part)

lemma lookup_writeFile:
  "writeFile fs p c = Inr fs' \<Longrightarrow>
     lookup fs' q = (if normalize q = normalize p then Some c else lookup fs q)"
  by (auto simp: writeFile_def lookup_def update_conv' split: if_splits option.splits)

lemma frame_writeFile:
  "writeFile fs p c = Inr fs' \<Longrightarrow>
     dirs fs' = dirs fs \<and> pinned fs' = pinned fs \<and> readonly fs' = readonly fs \<and> \<not> isDirectory fs p"
  by (auto simp: writeFile_def split: if_splits option.splits)

lemma lookup_unlink_quietly:
  "lookup (unlink_quietly fs p) q =
     (if normalize q = normalize p \<and> \<not> is_pinned fs p \<and> \<not> isDirectory fs p then None
      else lookup fs q)"
  by (auto simp: unlink_quietly_def unlink_def isFile_def lookup_def delete_conv' split: if_splits)

lemma lookup_mkdir: "mkdir fs p = Inr fs' \<Longrightarrow> lookup fs' q = lookup fs q"
  by (auto simp: mkdir_def lookup_def Let_def split: if_splits)

lemma lookup_ensureDir: "ensureDir fs p = Inr fs' \<Longrightarrow> lookup fs' q = lookup fs q"
  by (auto simp: ensureDir_def lookup_mkdir split: sum.splits if_splits)





text \<open>The trace of the attempts \<open>a\<close> up to \<open>k - 1\<close> when each of them fails and is
  followed by a delay.\<close>

definition failures :: "nat \<Rightarrow> nat \<Rightarrow> rat \<Rightarrow> effect list" where
  "failures a k delay = concat (map (\<lambda>j. [Attempt j, Outcome False, Delay delay]) [a..<k])"


lemma failures_empty [simp]: "failures a a d = []"
  by (simp add: failures_def)



text \<open>What a decimal numeral is, said without \<open>show_nat\<close>: a non-empty string of digits
  with the given value.\<close>

definition decimal_value :: "string \<Rightarrow> nat" where
  "decimal_value s = foldl (\<lambda>a c. 10 * a + (of_char c - 48)) 0 s"

definition is_decimal :: "string \<Rightarrow> nat \<Rightarrow> bool" where
  "is_decimal s n = (s \<noteq> [] \<and> list_all (\<lambda>c. c \<in> set ''0123456789'') s \<and> decimal_value s = n)"

lemma digit_char_value:
  assumes "d < 10"
  shows "of_char (digit_char d) = 48 + d \<and> digit_char d \<in> set ''0123456789''"
proof -
  have "d = 0 \<or> d = 1 \<or> d = 2 \<or> d = 3 \<or> d = 4 \<or> d = 5 \<or> d = 6 \<or> d = 7 \<or> d = 8 \<or> d = 9"
    using assms by presburger
  then show ?thesis
    by (elim disjE) (simp_all add: digit_char_def)
qed

lemma show_nat_decimal: "is_decimal (show_nat n) n"
proof (induction n rule: show_nat.induct)
  case (1 n)
  show ?case
  proof (cases "n < 10")
    case True
    then show ?thesis
      using digit_char_value [OF True]
      by (subst show_nat.simps) (simp add: is_decimal_def decimal_value_def)
  next
    case False
    have m: "n mod 10 < 10"
      by simp
    have "is_decimal (show_nat (n div 10)) (n div 10)"
      using 1 False by simp
    then show ?thesis
      using False digit_char_value [OF m]
      by (subst show_nat.simps) (simp add: is_decimal_def decimal_value_def)
  qed
qed

section \<open>Transfer and retry: the claims\<close>

definition example_job :: FileEntry where
  "example_job = example_incoming \<lparr> size_f := 100 \<rparr>"

definition example_config :: Configuration where
  "example_config = \<lparr> download = Some \<lparr> outputDir = Some ''out'', organizeByGroup = Some True,
      overwriteExisting = None, chunkSize = None, concurrency = Some 2, retryAttempts = None,
      retryDelay = None \<rparr> \<rparr>"



definition empty_disk :: fsys where
  "empty_disk = \<lparr> entries = [], dirs = [], readonly = [], pinned = [] \<rparr>"

definition short_world :: world where
  "short_world = \<lparr> disk = empty_disk, network = [Buffer (replicate 50 (CHR ''x''))], trace = [] \<rparr>"


definition count_attempts :: "effect list \<Rightarrow> nat" where
  "count_attempts t = length (filter (\<lambda>e. case e of Attempt n \<Rightarrow> True | _ \<Rightarrow> False) t)"

lemma count_attempts_append [simp]:
  "count_attempts (xs @ ys) = count_attempts xs + count_attempts ys"
  by (simp add: count_attempts_def)








definition leftover_world :: world where
  "leftover_world =
     \<lparr> disk = \<lparr> entries = [(''out/my_group/report-v2.pdf.part'', Raw ''stale'')],
                dirs = [''out'', ''out/my_group''], readonly = [],
                pinned = [''out/my_group/report-v2.pdf.part''] \<rparr>,
       network = [Buffer (replicate 50 (CHR ''x''))], trace = [] \<rparr>"

definition lookalike_world :: world where
  "lookalike_world = short_world \<lparr> network :=
     [MessagesThrow ''Downloaded size (50) does not match expected size (100) for file g1:10''] \<rparr>"

text \<open>
  Claim C7 says that \<open>downloadFile\<close> yields a failure outcome of kind
  \<^verbatim>\<open>SIZE_MISMATCH\<close> and that the temp file no longer exists after the attempt. The
  result of \<open>downloadFile\<close> has the fields \<^verbatim>\<open>success\<close>, \<^verbatim>\<open>file\<close>, \<^verbatim>\<open>downloadPath\<close> and
  \<^verbatim>\<open>error\<close> (the message) and no kind: the outer \<^verbatim>\<open>catch\<close> keeps the message of the
  \<open>DownloadError\<close> and drops its code, so a size mismatch gives the very result that a
  plain error with the same message gives. The removal of the temp file is best effort:
  where a temp file left by an earlier run can be overwritten but not removed (its
  directory is not writable), the temp file is still there after the attempt, holding the
  bytes of this attempt.
\<close>

theorem downloadFile_size_mismatch_outcome:
  "fst (downloadFile example_job ''my group'' example_config short_world) =
     Inr \<lparr> success = False, file_r = example_job, downloadPath_r = None,
           error_r = Some ''Downloaded size (50) does not match expected size (100) for file g1:10'' \<rparr> \<and>
   fst (downloadFile example_job ''my group'' example_config lookalike_world) =
     Inr \<lparr> success = False, file_r = example_job, downloadPath_r = None,
           error_r = Some ''Downloaded size (50) does not match expected size (100) for file g1:10'' \<rparr> \<and>
   fst (downloadFile example_job ''my group'' example_config leftover_world) =
     Inr \<lparr> success = False, file_r = example_job, downloadPath_r = None,
           error_r = Some ''Downloaded size (50) does not match expected size (100) for file g1:10'' \<rparr> \<and>
   lookup (disk (snd (downloadFile example_job ''my group'' example_config leftover_world)))
     ''out/my_group/report-v2.pdf.part'' = Some (Raw (replicate 50 (CHR ''x'')))"
  by code_simp

text \<open>
  Claim C7, amended. Take a transfer attempt that reaches the write of the temp file (the
  directory could be ensured, the final path is not skipped, the remote side delivers a
  buffer) whose write succeeds with a number of bytes different from the declared size.
  The inner block throws the \<open>DownloadError\<close> with code \<^verbatim>\<open>SIZE_MISMATCH\<close>;
  \<open>downloadFile\<close> returns the failure result that carries the file, no download path and the
  message of that error, which names the written and the expected size in decimal, and
  carries no kind. The final path holds what it held before. Nothing is stored at the temp
  path afterwards unless its removal is refused, and then the temp file holds the bytes
  written.
\<close>

theorem downloadFile_size_mismatch:
  assumes "ensureDir (disk w) (outputDirOf cfg file h) = Inr d1"
    and "flag (setting overwriteExisting cfg) \<or> \<not> access d1 (outputPathOf cfg file h)"
    and "network w = Buffer b # rest"
    and "writeFile d1 (outputPathOf cfg file h @ ''.part'') (Raw b) = Inr d2"
    and "length b \<noteq> size_f file"
  shows "\<exists>written expected w1 w'.
     is_decimal written (length b) \<and> is_decimal expected (size_f file) \<and>
     transfer file (outputPathOf cfg file h) (outputPathOf cfg file h @ ''.part'') (w \<lparr> disk := d1 \<rparr>) =
       (Inl (DownloadError (''Downloaded size ('' @ written @
                            '') does not match expected size ('' @ expected @
                            '') for file '' @ id_f file) ''SIZE_MISMATCH''), w1) \<and>
     lookup (disk w1) (outputPathOf cfg file h @ ''.part'') = Some (Raw b) \<and>
     downloadFile file h cfg w =
       (Inr \<lparr> success = False, file_r = file, downloadPath_r = None,
              error_r = Some (''Downloaded size ('' @ written @
                              '') does not match expected size ('' @ expected @
                              '') for file '' @ id_f file) \<rparr>, w') \<and>
     lookup (disk w') (outputPathOf cfg file h @ ''.part'') =
       (if is_pinned d1 (outputPathOf cfg file h @ ''.part'') then Some (Raw b) else None) \<and>
     lookup (disk w') (outputPathOf cfg file h) = lookup (disk w) (outputPathOf cfg file h) \<and>
     network w' = rest"
proof -
  let ?out = "outputPathOf cfg file h"
  let ?tmp = "?out @ ''.part''"
  let ?w1 = "w \<lparr> disk := d1 \<rparr>"
  note wr = assms(4)
  have l2: "lookup d2 q = (if normalize q = normalize ?tmp then Some (Raw b) else lookup d1 q)" for q
    using lookup_writeFile [OF wr] by simp
  have fr: "dirs d2 = dirs d1" "pinned d2 = pinned d1" "\<not> isDirectory d1 ?tmp"
    using frame_writeFile [OF wr] by simp_all
  have p2: "is_pinned d2 ?tmp = is_pinned d1 ?tmp" "\<not> isDirectory d2 ?tmp"
    using fr by (simp_all add: is_pinned_def isDirectory_def)
  have st: "stat_size d2 ?tmp = Inr (length b)"
    by (simp add: stat_size_def l2)
  let ?e = "size_mismatch file (length b)"
  let ?w2 = "w \<lparr> disk := d2, network := rest \<rparr>"
  have t: "transfer file ?out ?tmp ?w1 = (Inl ?e, ?w2)"
    using assms(3,5) wr st by (simp add: transfer_def fetch_def Let_def)
  let ?w3 = "?w2 \<lparr> disk := unlink_quietly d2 ?tmp \<rparr>"
  have c: "transfer_with_cleanup file ?out ?w1 = (Inl ?e, ?w3)"
    using t by (simp add: transfer_with_cleanup_def)
  have body: "downloadFile_body file h cfg w = (Inl ?e, ?w3)"
    using assms(1,2) c by (auto simp: downloadFile_body_def outputPathOf_def Let_def)
  have res: "downloadFile file h cfg w = (Inr (failed_with file (message ?e)), ?w3)"
    using body by (simp add: downloadFile_def)
  have mk: "lookup d1 q = lookup (disk w) q" for q
    using lookup_ensureDir [OF assms(1)] by simp
  have gone: "lookup (disk ?w3) ?tmp = (if is_pinned d1 ?tmp then Some (Raw b) else None)"
    using p2 by (simp add: lookup_unlink_quietly l2)
  have kept: "lookup (disk ?w3) ?out = lookup (disk w) ?out"
    using normalize_part_neq [of ?out] by (simp add: lookup_unlink_quietly l2 mk)
  show ?thesis
    using t res gone kept l2 [of ?tmp] show_nat_decimal [of "length b"] show_nat_decimal [of "size_f file"]
    by (intro exI [of _ "show_nat (length b)"] exI [of _ "show_nat (size_f file)"]
          exI [of _ ?w2] exI [of _ ?w3])
       (simp add: size_mismatch_def failed_with_def)
qed

lemma example_outputPath:
  "outputDirOf example_config example_job ''my group'' = ''out/my_group''"
  "outputPathOf example_config example_job ''my group'' = ''out/my_group/report-v2.pdf''"
  by code_simp+

theorem downloadFile_size_mismatch_witness:
  "(\<exists>r w'. downloadFile example_job ''my group'' example_config short_world = (Inr r, w') \<and>
      success r = False \<and> file_r r = example_job \<and> downloadPath_r r = None \<and>
      error_r r = Some ''Downloaded size (50) does not match expected size (100) for file g1:10'' \<and>
      lookup (disk w') ''out/my_group/report-v2.pdf.part'' = None \<and>
      lookup (disk w') ''out/my_group/report-v2.pdf'' = None \<and>
      network w' = []) \<and>
   (\<exists>r w'. downloadFile example_job ''my group'' example_config leftover_world = (Inr r, w') \<and>
      success r = False \<and>
      lookup (disk w') ''out/my_group/report-v2.pdf.part'' = Some (Raw (replicate 50 (CHR ''x''))) \<and>
      lookup (disk w') ''out/my_group/report-v2.pdf'' = None)"
proof -
  let ?d1 = "\<lparr> entries = [], dirs = [''out'', ''out/my_group''], readonly = [], pinned = [] \<rparr>"
  let ?d2 = "\<lparr> entries = [(''out/my_group/report-v2.pdf.part'', Raw (replicate 50 (CHR ''x'')))],
               dirs = [''out'', ''out/my_group''], readonly = [], pinned = [] \<rparr>"
  let ?e1 = "disk leftover_world"
  let ?e2 = "\<lparr> entries = [(''out/my_group/report-v2.pdf.part'', Raw (replicate 50 (CHR ''x'')))],
               dirs = [''out'', ''out/my_group''], readonly = [],
               pinned = [''out/my_group/report-v2.pdf.part''] \<rparr>"
  let ?b = "replicate 50 (CHR ''x'')"
  have h1: "ensureDir (disk short_world) (outputDirOf example_config example_job ''my group'') = Inr ?d1"
    unfolding example_outputPath by code_simp
  have h2: "flag (setting overwriteExisting example_config) \<or>
      \<not> access ?d1 (outputPathOf example_config example_job ''my group'')"
    unfolding example_outputPath by code_simp
  have h3: "network short_world = Buffer ?b # []"
    by (simp add: short_world_def)
  have h4: "writeFile ?d1 (outputPathOf example_config example_job ''my group'' @ ''.part'') (Raw ?b) = Inr ?d2"
    unfolding example_outputPath by code_simp
  have h5: "length ?b \<noteq> size_f example_job"
    by (simp add: example_job_def)
  have g1: "ensureDir (disk leftover_world) (outputDirOf example_config example_job ''my group'') = Inr ?e1"
    unfolding example_outputPath by code_simp
  have g2: "flag (setting overwriteExisting example_config) \<or>
      \<not> access ?e1 (outputPathOf example_config example_job ''my group'')"
    unfolding example_outputPath by code_simp
  have g3: "network leftover_world = Buffer ?b # []"
    by (simp add: leftover_world_def)
  have g4: "writeFile ?e1 (outputPathOf example_config example_job ''my group'' @ ''.part'') (Raw ?b) = Inr ?e2"
    unfolding example_outputPath by code_simp
  have pin: "\<not> is_pinned ?d1 ''out/my_group/report-v2.pdf.part''"
    "is_pinned ?e1 ''out/my_group/report-v2.pdf.part''"
    by code_simp+
  have l: "lookup (disk short_world) ''out/my_group/report-v2.pdf'' = None"
    "lookup (disk leftover_world) ''out/my_group/report-v2.pdf'' = None"
    by code_simp+
  let ?lit = "\<lparr> success = False, file_r = example_job, downloadPath_r = None,
           error_r = Some ''Downloaded size (50) does not match expected size (100) for file g1:10'' \<rparr>"
  have run: "fst (downloadFile example_job ''my group'' example_config short_world) = Inr ?lit"
    "fst (downloadFile example_job ''my group'' example_config leftover_world) = Inr ?lit"
    by code_simp+
  from downloadFile_size_mismatch [OF h1 h2 h3 h4 h5, unfolded example_outputPath]
  obtain r w' where a: "downloadFile example_job ''my group'' example_config short_world = (Inr r, w')"
     "lookup (disk w') ''out/my_group/report-v2.pdf.part'' =
        (if is_pinned ?d1 ''out/my_group/report-v2.pdf.part'' then Some (Raw ?b) else None)"
     "lookup (disk w') ''out/my_group/report-v2.pdf'' = lookup (disk short_world) ''out/my_group/report-v2.pdf''"
     "network w' = []"
    by auto
  have ra: "r = ?lit"
    using a(1) run(1) by simp
  have 1: "\<exists>r w'. downloadFile example_job ''my group'' example_config short_world = (Inr r, w') \<and>
      success r = False \<and> file_r r = example_job \<and> downloadPath_r r = None \<and>
      error_r r = Some ''Downloaded size (50) does not match expected size (100) for file g1:10'' \<and>
      lookup (disk w') ''out/my_group/report-v2.pdf.part'' = None \<and>
      lookup (disk w') ''out/my_group/report-v2.pdf'' = None \<and>
      network w' = []"
    using a pin(1) l(1) unfolding ra by (intro exI [of _ ?lit] exI [of _ w']) simp
  from downloadFile_size_mismatch [OF g1 g2 g3 g4 h5, unfolded example_outputPath]
  obtain r' v' where b: "downloadFile example_job ''my group'' example_config leftover_world = (Inr r', v')"
     "lookup (disk v') ''out/my_group/report-v2.pdf.part'' =
        (if is_pinned ?e1 ''out/my_group/report-v2.pdf.part'' then Some (Raw ?b) else None)"
     "lookup (disk v') ''out/my_group/report-v2.pdf'' = lookup (disk leftover_world) ''out/my_group/report-v2.pdf''"
    by auto
  have rb: "r' = ?lit"
    using b(1) run(2) by simp
  have 2: "\<exists>r w'. downloadFile example_job ''my group'' example_config leftover_world = (Inr r, w') \<and>
      success r = False \<and>
      lookup (disk w') ''out/my_group/report-v2.pdf.part'' = Some (Raw (replicate 50 (CHR ''x''))) \<and>
      lookup (disk w') ''out/my_group/report-v2.pdf'' = None"
    using b pin(2) l(2) unfolding rb by (intro exI [of _ ?lit] exI [of _ v']) simp
  show ?thesis
    using 1 2 by (intro conjI)
qed


end
